theory Spec2Isabelle
  imports Complex_Main "HOL-Library.Sublist"
begin

chapter \<open>The Logos front ends: a shallow embedding of the view logic\<close>

text \<open>
  The repository holds two React applications. What they compute is small: the outcome
  of a fetch, the state a component keeps between renders, and a few pure helpers
  (pagination, the split of a diagnosis into prose and code, the layout of the agent
  graph, the choice of a chart). Each of these is translated here from the TypeScript
  source, one HOL definition per source function, under the source's name.

  Conventions of the embedding:
  \<^item> a component's \<open>useState\<close> cells are the fields of a record, and an event handler
    is a function from the state at the event to the state after it;
  \<^item> an asynchronous function that can throw is a function to
    \<open>js_error option \<times> state\<close>: the error that leaves the function (if any) and the
    state it leaves behind;
  \<^item> array lengths, indices and page numbers are integers (doubles represent them
    exactly); the other numbers (zoom, pan offsets, ratios) are finite doubles,
    represented by the reals they denote, and every arithmetic result is rounded by a
    function \<open>rnd\<close> that the definitions take as a parameter;
  \<^item> identifiers, labels and messages are lists of characters, a \<open>char\<close> standing for
    a UTF-16 code unit below 256; the text of a diagnosis, which is free text, is the
    list of its UTF-16 code units, each a number.
\<close>

section \<open>JavaScript values\<close>

subsection \<open>Errors\<close>

text \<open>
  \<open>Error msg\<close> is \<open>new Error(msg)\<close>; \<open>TypeError\<close> is what \<open>fetch\<close> rejects with when
  the network fails and what a call of a missing method throws; \<open>SyntaxError\<close> is what
  \<open>response.json()\<close> rejects with when the body is not JSON.
\<close>

datatype js_error = Error string | TypeError | SyntaxError

text \<open>
  A computation over a state \<open>'s\<close>: the error thrown (\<open>None\<close> when it completes
  normally) and the state after it. State changes made before a throw are kept, as
  the setters called before it have run.
\<close>

type_synonym 's effect = "'s \<Rightarrow> js_error option \<times> 's"

text \<open>
  \<open>try { body } catch (err) { handler } finally { finalizer }\<close>. The handler runs only if
  the body throws, the finalizer always runs; an error leaves the statement only if the
  handler or the finalizer throws.
\<close>

definition try_catch_finally ::
  "'s effect \<Rightarrow> (js_error \<Rightarrow> 's effect) \<Rightarrow> 's effect \<Rightarrow> 's effect" where
  "try_catch_finally body handler finalizer s =
     (case body s of
        (None, s1) \<Rightarrow> finalizer s1
      | (Some err, s1) \<Rightarrow>
          (case handler err s1 of
             (None, s2) \<Rightarrow> finalizer s2
           | (Some err', s2) \<Rightarrow>
               (case finalizer s2 of
                  (None, s3) \<Rightarrow> (Some err', s3)
                | (Some err'', s3) \<Rightarrow> (Some err'', s3))))"

text \<open>
  Two statements one after the other: the second runs only if the first completes
  normally.
\<close>

definition then_do :: "'s effect \<Rightarrow> 's effect \<Rightarrow> 's effect" where
  "then_do first second s =
     (case first s of
        (None, s1) \<Rightarrow> second s1
      | (Some err, s1) \<Rightarrow> (Some err, s1))"

text \<open>The result of one promise under \<open>Promise.allSettled\<close>.\<close>

datatype 'a settled = Fulfilled 'a | Rejected js_error

definition settle :: "js_error + 'a \<Rightarrow> 'a settled" where
  "settle p = (case p of Inl reason \<Rightarrow> Rejected reason | Inr v \<Rightarrow> Fulfilled v)"

fun is_rejected :: "'a settled \<Rightarrow> bool" where
  "is_rejected (Rejected _) = True"
| "is_rejected (Fulfilled _) = False"

subsection \<open>Numbers\<close>

text \<open>
  \<open>rnd\<close> stands for the rounding of an exact result to the nearest double. A literal
  that is not an integer, such as \<open>0.1\<close>, denotes \<open>rnd 0.1\<close>. What the proofs use of
  \<open>rnd\<close> is collected in \<open>ieee_rounding\<close>: it is monotone, it leaves a double as it is,
  and the small integers of the source are doubles. Overflow to an infinity is not
  modelled.
\<close>

definition ieee_rounding :: "(real \<Rightarrow> real) \<Rightarrow> bool" where
  "ieee_rounding rnd =
     (mono rnd \<and> (\<forall>x. rnd (rnd x) = rnd x) \<and> rnd 0 = 0 \<and> rnd 1 = 1 \<and> rnd 3 = 3)"

definition js_add :: "(real \<Rightarrow> real) \<Rightarrow> real \<Rightarrow> real \<Rightarrow> real" where
  "js_add rnd a b = rnd (a + b)"

definition js_sub :: "(real \<Rightarrow> real) \<Rightarrow> real \<Rightarrow> real \<Rightarrow> real" where
  "js_sub rnd a b = rnd (a - b)"

definition js_mul :: "(real \<Rightarrow> real) \<Rightarrow> real \<Rightarrow> real \<Rightarrow> real" where
  "js_mul rnd a b = rnd (a * b)"

text \<open>
  Division. JavaScript does not throw on a zero divisor: the quotient is \<open>NaN\<close> or an
  infinity, which is \<open>None\<close> here (no finite number).
\<close>

definition js_div :: "(real \<Rightarrow> real) \<Rightarrow> real \<Rightarrow> real \<Rightarrow> real option" where
  "js_div rnd a b = (if b = 0 then None else Some (rnd (a / b)))"

text \<open>\<open>Math.round\<close>: the nearest integer, a tie going up.\<close>

definition Math_round :: "real \<Rightarrow> int" where
  "Math_round x = \<lfloor>x + 1 / 2\<rfloor>"

subsection \<open>Arrays and strings\<close>

text \<open>
  \<open>Array.prototype.slice(start, end)\<close> for integer arguments: a negative argument
  counts from the end, and both are clipped to the array.
\<close>

definition js_slice :: "'a list \<Rightarrow> int \<Rightarrow> int \<Rightarrow> 'a list" where
  "js_slice xs start end' =
     (let len = int (length xs);
          k = (if start < 0 then max (len + start) 0 else min start len);
          final = (if end' < 0 then max (len + end') 0 else min end' len)
      in take (nat (final - k)) (drop (nat k) xs))"

text \<open>\<open>Array.prototype.findIndex\<close>: the first index whose element passes, or \<open>-1\<close>.\<close>

fun findIndex :: "('a \<Rightarrow> bool) \<Rightarrow> 'a list \<Rightarrow> int" where
  "findIndex p [] = -1"
| "findIndex p (x # xs) =
     (if p x then 0 else (let i = findIndex p xs in if i < 0 then -1 else i + 1))"

text \<open>
  A string as the list of its UTF-16 code units, and the code units of a literal of the
  source.
\<close>

type_synonym js_string = "nat list"


text \<open>The decimal digits of a number, as a template literal prints a status code.\<close>

function string_of_nat :: "nat \<Rightarrow> string" where
  "string_of_nat n =
     (if n < 10 then [''0123456789'' ! n]
      else string_of_nat (n div 10) @ [''0123456789'' ! (n mod 10)])"
  by pat_completeness auto
termination
  by (relation "measure (\<lambda>n. n)") auto

declare string_of_nat.simps [simp del]

subsection \<open>Values of type \<open>any\<close>\<close>

text \<open>
  A value that \<open>JSON.parse\<close> made of a response body; reading a property adds
  \<open>undefined\<close>. An object is the list of its members in the order of the text.
\<close>

datatype js_value =
    JUndefined
  | JNull
  | JBool bool
  | JNumber real
  | JString string
  | JArray "js_value list"
  | JObject "(string \<times> js_value) list"

fun truthy :: "js_value \<Rightarrow> bool" where
  "truthy JUndefined = False"
| "truthy JNull = False"
| "truthy (JBool b) = b"
| "truthy (JNumber n) = (n \<noteq> 0)"
| "truthy (JString s) = (s \<noteq> [])"
| "truthy (JArray _) = True"
| "truthy (JObject _) = True"

text \<open>
  \<open>v.k\<close>, for the names \<open>ResultCard\<close> reads (\<open>chartjs\<close>, \<open>type\<close>, \<open>data\<close>, \<open>options\<close>), which
  no prototype defines: a \<open>TypeError\<close> on \<open>undefined\<close> and \<open>null\<close>, the member of an object
  (the last one, if the text repeats the key), and \<open>undefined\<close> otherwise.
\<close>

fun get_property :: "js_value \<Rightarrow> string \<Rightarrow> js_error + js_value" where
  "get_property JUndefined k = Inl TypeError"
| "get_property JNull k = Inl TypeError"
| "get_property (JObject members) k =
     Inr (case map_of (rev members) k of Some v \<Rightarrow> v | None \<Rightarrow> JUndefined)"
| "get_property _ k = Inr JUndefined"

text \<open>
  \<open>toLowerCase\<close> on the code units below 256: the letters \<open>A\<close> to \<open>Z\<close> and the capital
  letters of Latin-1. Called on a value that is not a string, it throws: the value has
  no such method.
\<close>

definition lower_char :: "char \<Rightarrow> char" where
  "lower_char c =
     (let n = (of_char c :: nat)
      in if (65 \<le> n \<and> n \<le> 90) \<or> (192 \<le> n \<and> n \<le> 222 \<and> n \<noteq> 215)
         then char_of (n + 32) else c)"

fun toLowerCase :: "js_value \<Rightarrow> js_error + string" where
  "toLowerCase (JString s) = Inr (map lower_char s)"
| "toLowerCase _ = Inl TypeError"

section \<open>The eval-server front end\<close>

subsection \<open>\<open>types.ts\<close>: the shapes of the JSON the servers send\<close>

text \<open>
  An optional field is an \<open>option\<close>. Where two interfaces use one field name, the
  second carries a prefix (\<open>ev_\<close>, \<open>db_\<close>, \<open>mem_\<close>, \<open>dd_\<close>, \<open>td_\<close>, \<open>gd_\<close>, \<open>node_\<close>).
\<close>

record InterventionRequest =
  function_name :: string
  url :: "string option"

record InterventionEvent =
  timestamp :: string
  request :: InterventionRequest
  content_preview :: string
  content_length :: int
  decision :: string
  final_output :: string

record TraceEvent =
  ev_trace_id :: string
  span_id :: string
  parent_span_id :: "string option"
  event_type :: string
  name :: string
  category :: "string option"
  ev_status :: string
  ev_timestamp :: string
  server_ts :: "string option"
  ev_duration_ms :: "real option"
  args_preview :: "string option"
  kwargs_preview :: "string option"
  result_preview :: "string option"
  error_type :: "string option"
  error_message :: "string option"
  metadata :: "(string \<times> js_value) list option"

record TraceRow =
  trace_id :: string
  span_count :: int
  error_count :: int
  duration_ms :: real

record DatabaseStatus =
  connected :: bool
  db_status :: string
  trace_count :: int

record MemoryStatus =
  mem_trace_count :: int

record SystemStatus =
  ok :: bool
  database :: DatabaseStatus
  memory :: MemoryStatus
  data_source :: string

text \<open>The bodies of \<open>/dashboard\<close>, \<open>/trace/:id\<close> and \<open>/agent-graph\<close>, as \<open>api.ts\<close> types them.\<close>

record DashboardData =
  total :: int
  dd_trace_count :: int
  dd_traces :: "TraceRow list"
  insights :: "string option"

record TraceDetails =
  td_trace_id :: string
  td_count :: int
  td_events :: "TraceEvent list"

record Node =
  node_id :: string
  node_label :: string
  node_type :: string
  node_x :: "int option"
  node_y :: "int option"

record Edge =
  source :: string
  target :: string
  edge_label :: string

record GraphData =
  gd_nodes :: "Node list"
  gd_edges :: "Edge list"
  gd_description :: string

subsection \<open>\<open>api.ts\<close>: the API client\<close>

text \<open>
  What \<open>fetchJson\<close> reads of a \<open>Response\<close>: its \<open>ok\<close> flag, its status code, and the
  body as \<open>response.json()\<close> parses it; \<open>None\<close> is a body that is not JSON, on which
  \<open>response.json()\<close> rejects with a \<open>SyntaxError\<close>.
\<close>

record 'a Response =
  resp_ok :: bool
  resp_status :: nat
  resp_json :: "'a option"

text \<open>
  \<open>fetchJson\<close> takes the outcome of \<open>await fetch(url)\<close>: the rejection reason or the
  response. The promise it returns rejects with \<open>Inl\<close> and fulfils with \<open>Inr\<close>.
\<close>

definition fetchJson :: "js_error + 'a Response \<Rightarrow> js_error + 'a" where
  "fetchJson fetched =
     (case fetched of
        Inl reason \<Rightarrow> Inl reason
      | Inr response \<Rightarrow>
          if \<not> resp_ok response
          then Inl (Error (''HTTP error! status: '' @ string_of_nat (resp_status response)))
          else (case resp_json response of
                  None \<Rightarrow> Inl SyntaxError
                | Some body \<Rightarrow> Inr body))"

text \<open>
  \<open>fetchJson<T>\<close> casts what \<open>response.json()\<close> parsed and checks nothing, so the
  promises of the three dashboard endpoints can fulfil with a value that has not the
  declared shape. The values kept here are those that leave the component's declared
  state types intact: a value of the declared shape (\<open>NonNull\<close>, \<open>HistoryList\<close>), the JSON
  \<open>null\<close>, and for the history the values on which \<open>slice\<close> cannot be called (a boolean,
  a number, an object). A value of yet another shape (an object without \<open>traces\<close>, a
  string for the history) would pass the \<open>try\<close> block and put a value outside the
  declared types into the state; the typed state has no place for it.
\<close>

datatype 'a nullable = Null | NonNull 'a

datatype history_body =
    HistoryList "InterventionEvent list"
  | HistoryNull
  | HistoryBoolean bool
  | HistoryNumber real
  | HistoryObject "(string \<times> js_value) list"

definition getInterventionHistory ::
  "js_error + history_body Response \<Rightarrow> js_error + history_body" where
  "getInterventionHistory fetched = fetchJson fetched"

definition getSystemStatus ::
  "js_error + SystemStatus nullable Response \<Rightarrow> js_error + SystemStatus nullable" where
  "getSystemStatus fetched = fetchJson fetched"

definition getDashboardData ::
  "js_error + DashboardData nullable Response \<Rightarrow> js_error + DashboardData nullable" where
  "getDashboardData fetched = fetchJson fetched"

definition getTraceDetails :: "js_error + TraceDetails Response \<Rightarrow> js_error + TraceEvent list" where
  "getTraceDetails fetched =
     (case fetchJson fetched of
        Inl reason \<Rightarrow> Inl reason
      | Inr response \<Rightarrow> Inr (td_events response))"

definition getAgentGraph :: "js_error + GraphData Response \<Rightarrow> js_error + GraphData" where
  "getAgentGraph fetched = fetchJson fetched"

subsection \<open>\<open>Dashboard.tsx\<close>: state and data fetching\<close>

record Dashboard_state =
  status :: "SystemStatus option"
  traces :: "TraceRow list"
  interventions :: "InterventionEvent list"
  loading :: bool
  error :: "string option"
  currentPage :: int

text \<open>The arguments of the component's \<open>useState\<close> calls.\<close>

definition Dashboard_initial :: Dashboard_state where
  "Dashboard_initial =
     \<lparr>status = None, traces = [], interventions = [], loading = True, error = None,
      currentPage = 1\<rparr>"

definition tracesPerPage :: int where
  "tracesPerPage = 10"

text \<open>
  The body of the \<open>try\<close> block of \<open>fetchData\<close>, statement by statement. Its three
  arguments are the outcomes of the three \<open>fetch\<close> calls; \<open>Promise.allSettled\<close> never
  rejects. \<open>setStatus(statusResult.value)\<close> stores the value as it is, \<open>null\<close> included.
  \<open>dashboardResult.value.traces\<close> throws a \<open>TypeError\<close> on \<open>null\<close>, and
  \<open>interventionsResult.value.slice(0, 5)\<close> throws one on every value that is not a
  list; the statements after a throw do not run.
\<close>

definition fetchData_body ::
  "js_error + SystemStatus nullable Response \<Rightarrow> js_error + DashboardData nullable Response \<Rightarrow>
   js_error + history_body Response \<Rightarrow> Dashboard_state effect" where
  "fetchData_body f0 f1 f2 =
     then_do (\<lambda>s. (None, s\<lparr>loading := True\<rparr>))
       (let statusResult = settle (getSystemStatus f0);
            dashboardResult = settle (getDashboardData f1);
            interventionsResult = settle (getInterventionHistory f2)
        in then_do
             (\<lambda>s. case statusResult of
                    Fulfilled (NonNull v) \<Rightarrow> (None, s\<lparr>status := Some v\<rparr>)
                  | Fulfilled Null \<Rightarrow> (None, s\<lparr>status := None\<rparr>)
                  | Rejected _ \<Rightarrow> (None, s\<lparr>status := None\<rparr>))
          (then_do
             (\<lambda>s. case dashboardResult of
                    Fulfilled (NonNull v) \<Rightarrow> (None, s\<lparr>traces := dd_traces v\<rparr>)
                  | Fulfilled Null \<Rightarrow> (Some TypeError, s)
                  | Rejected _ \<Rightarrow> (None, s\<lparr>traces := []\<rparr>))
          (then_do
             (\<lambda>s. case interventionsResult of
                    Fulfilled (HistoryList v) \<Rightarrow> (None, s\<lparr>interventions := js_slice v 0 5\<rparr>)
                  | Fulfilled _ \<Rightarrow> (Some TypeError, s)
                  | Rejected _ \<Rightarrow> (None, s\<lparr>interventions := []\<rparr>))
             (\<lambda>s. if is_rejected statusResult \<and> is_rejected dashboardResult
                  then (None, s\<lparr>error := Some ''Failed to fetch dashboard data''\<rparr>)
                  else (None, s\<lparr>error := None\<rparr>)))))"

definition fetchData ::
  "js_error + SystemStatus nullable Response \<Rightarrow> js_error + DashboardData nullable Response \<Rightarrow>
   js_error + history_body Response \<Rightarrow> Dashboard_state effect" where
  "fetchData f0 f1 f2 =
     try_catch_finally
       (fetchData_body f0 f1 f2)
       (\<lambda>err s. (None, s\<lparr>error := Some ''Failed to fetch dashboard data''\<rparr>))
       (\<lambda>s. (None, s\<lparr>loading := False\<rparr>))"

subsection \<open>\<open>Dashboard.tsx\<close>: derived values and pagination\<close>

definition totalTraces :: "Dashboard_state \<Rightarrow> int" where
  "totalTraces s =
     (case status s of
        Some st \<Rightarrow>
          if connected (database st) then trace_count (database st)
          else mem_trace_count (memory st)
      | None \<Rightarrow> 0)"

definition errorTraces :: "Dashboard_state \<Rightarrow> nat" where
  "errorTraces s = length (filter (\<lambda>t. error_count t > 0) (traces s))"

text \<open>
  \<open>Math.ceil(traces.length / tracesPerPage)\<close>. The quotient is taken exactly: for an
  array length the double quotient has the same ceiling.
\<close>

definition totalPages :: "Dashboard_state \<Rightarrow> int" where
  "totalPages s = \<lceil>real (length (traces s)) / real_of_int tracesPerPage\<rceil>"

definition startIndex :: "Dashboard_state \<Rightarrow> int" where
  "startIndex s = (currentPage s - 1) * tracesPerPage"

definition endIndex :: "Dashboard_state \<Rightarrow> int" where
  "endIndex s = startIndex s + tracesPerPage"

definition currentTraces :: "Dashboard_state \<Rightarrow> TraceRow list" where
  "currentTraces s = js_slice (traces s) (startIndex s) (endIndex s)"

definition goToPage :: "int \<Rightarrow> Dashboard_state \<Rightarrow> Dashboard_state" where
  "goToPage page s = s\<lparr>currentPage := page\<rparr>"

definition goToPrevious :: "Dashboard_state \<Rightarrow> Dashboard_state" where
  "goToPrevious s = s\<lparr>currentPage := max 1 (currentPage s - 1)\<rparr>"

definition goToNext :: "Dashboard_state \<Rightarrow> Dashboard_state" where
  "goToNext s = s\<lparr>currentPage := min (totalPages s) (currentPage s + 1)\<rparr>"

text \<open>
  The error rate of the insights panel:
  \<open>traces.length > 0 ? Math.round(errorTraces / traces.length * 100) : 0\<close>.
  \<open>None\<close> would be a rate that is no finite number.
\<close>

definition errorRate :: "(real \<Rightarrow> real) \<Rightarrow> Dashboard_state \<Rightarrow> int option" where
  "errorRate rnd s =
     (if length (traces s) > 0
      then (case js_div rnd (real (errorTraces s)) (real (length (traces s))) of
              None \<Rightarrow> None
            | Some q \<Rightarrow> Some (Math_round (js_mul rnd q 100)))
      else Some 0)"

subsection \<open>\<open>Dashboard.tsx\<close>: what is rendered\<close>

datatype Badge = Intervened | Allowed | Unknown

record InterventionRow =
  row_function_name :: string
  row_decision :: Badge
  row_content_length :: int
  row_timestamp :: string

definition interventionRow :: "InterventionEvent \<Rightarrow> InterventionRow" where
  "interventionRow intervention =
     \<lparr>row_function_name = function_name (request intervention),
      row_decision =
        (if decision intervention = ''return_value'' then Intervened
         else if decision intervention = ''allow_original'' then Allowed
         else Unknown),
      row_content_length = content_length intervention,
      row_timestamp = timestamp intervention\<rparr>"

text \<open>
  The main view: the status bar (present when there is a status), the three stat
  cards, the table of the current page of traces (\<open>None\<close> is the "No traces yet"
  card), whether the pagination controls are shown, and the Recent Interventions
  table (\<open>None\<close> when the card is left out).
\<close>

record MainView =
  view_status :: "SystemStatus option"
  view_totalEvents :: int
  view_activeTraces :: nat
  view_errorTraces :: nat
  view_traces :: "TraceRow list option"
  view_pagination :: bool
  view_interventions :: "InterventionRow list option"

datatype Dashboard_view = LoadingView | ErrorView string | DashboardView MainView

definition Dashboard_main :: "Dashboard_state \<Rightarrow> MainView" where
  "Dashboard_main s =
     \<lparr>view_status = status s,
      view_totalEvents = totalTraces s,
      view_activeTraces = length (traces s),
      view_errorTraces = errorTraces s,
      view_traces = (if length (traces s) > 0 then Some (currentTraces s) else None),
      view_pagination = (length (traces s) > 0 \<and> totalPages s > 1),
      view_interventions =
        (if length (interventions s) > 0 then Some (map interventionRow (interventions s))
         else None)\<rparr>"

text \<open>
  The two early returns of the component, then the main view. A string is truthy when
  it is not empty.
\<close>

definition Dashboard_render :: "Dashboard_state \<Rightarrow> Dashboard_view" where
  "Dashboard_render s =
     (if loading s \<and> status s = None then LoadingView
      else case error s of
             None \<Rightarrow> DashboardView (Dashboard_main s)
           | Some msg \<Rightarrow>
               if msg \<noteq> [] \<and> status s = None then ErrorView msg
               else DashboardView (Dashboard_main s))"

text \<open>
  The clicks the pagination controls take. The controls are on screen only in the main
  view of a non-empty trace list with more than one page; Previous is disabled on page
  1 and Next on the last page; a page button exists for the first page, the last page
  and the pages next to the current one.
\<close>

datatype Dashboard_click = ClickPrevious | ClickNext | ClickPage int

definition showPage :: "Dashboard_state \<Rightarrow> int \<Rightarrow> bool" where
  "showPage s page =
     (page = 1 \<or> page = totalPages s \<or>
      (page \<ge> currentPage s - 1 \<and> page \<le> currentPage s + 1))"

definition pagination_shown :: "Dashboard_state \<Rightarrow> bool" where
  "pagination_shown s =
     (case Dashboard_render s of
        DashboardView v \<Rightarrow> view_pagination v
      | _ \<Rightarrow> False)"

fun Dashboard_onClick :: "Dashboard_click \<Rightarrow> Dashboard_state \<Rightarrow> Dashboard_state" where
  "Dashboard_onClick ClickPrevious s =
     (if pagination_shown s \<and> currentPage s \<noteq> 1 then goToPrevious s else s)"
| "Dashboard_onClick ClickNext s =
     (if pagination_shown s \<and> currentPage s \<noteq> totalPages s then goToNext s else s)"
| "Dashboard_onClick (ClickPage page) s =
     (if pagination_shown s \<and> 1 \<le> page \<and> page \<le> totalPages s \<and> showPage s page
      then goToPage page s else s)"

subsection \<open>\<open>TraceView.tsx\<close>: state and data fetching\<close>

record TraceView_state =
  tv_events :: "TraceEvent list"
  tv_loading :: bool
  tv_error :: "string option"
  expandedPreviews :: "nat set"
  diagnosing :: bool
  diagnosis :: "js_string option"
  diagnosisError :: "string option"
  showDiagnosisModal :: bool


text \<open>
  \<open>fetchTraceDetails\<close>, for the route parameter \<open>traceId\<close> (\<open>None\<close> is \<open>undefined\<close>; an
  empty string is falsy too) and the outcome of the fetch.
\<close>

definition fetchTraceDetails ::
  "string option \<Rightarrow> js_error + TraceDetails Response \<Rightarrow> TraceView_state effect" where
  "fetchTraceDetails traceId fetched s =
     (if traceId = None \<or> traceId = Some [] then (None, s)
      else
        try_catch_finally
          (\<lambda>s. let s = s\<lparr>tv_loading := True\<rparr>
               in case getTraceDetails fetched of
                    Inl err \<Rightarrow> (Some err, s)
                  | Inr traceData \<Rightarrow> (None, s\<lparr>tv_events := traceData, tv_error := None\<rparr>))
          (\<lambda>err s. (None, s\<lparr>tv_error := Some ''Failed to fetch trace details''\<rparr>))
          (\<lambda>s. (None, s\<lparr>tv_loading := False\<rparr>))
          s)"



subsection \<open>\<open>TraceView.tsx\<close>: the split of a diagnosis into prose and code\<close>

text \<open>
  The code units the regular expression names: the backtick, the newline, \<open>\w\<close>, which
  is \<open>[A-Za-z0-9_]\<close>, and the white space and line terminators that \<open>trim\<close> removes.
\<close>

definition backtick :: nat where
  "backtick = 96"

definition newline :: nat where
  "newline = 10"

definition fence :: js_string where
  "fence = [backtick, backtick, backtick]"

definition is_word_char :: "nat \<Rightarrow> bool" where
  "is_word_char u =
     ((48 \<le> u \<and> u \<le> 57) \<or> (65 \<le> u \<and> u \<le> 90) \<or> u = 95 \<or> (97 \<le> u \<and> u \<le> 122))"



text \<open>\<open>strip_prefix p s\<close> is what follows \<open>p\<close> in \<open>s\<close>, when \<open>s\<close> starts with \<open>p\<close>.\<close>

fun strip_prefix :: "js_string \<Rightarrow> js_string \<Rightarrow> js_string option" where
  "strip_prefix [] s = Some s"
| "strip_prefix (p # ps) [] = None"
| "strip_prefix (p # ps) (c # cs) = (if p = c then strip_prefix ps cs else None)"

text \<open>
  The lazy group \<open>([\s\S]*?)\<close> followed by the closing fence: the group takes the
  characters before the first fence, of any kind; the result is the group and what
  follows the fence. There is no match when no fence follows.
\<close>

fun until_fence :: "js_string \<Rightarrow> (js_string \<times> js_string) option" where
  "until_fence [] = None"
| "until_fence (c # cs) =
     (case strip_prefix fence (c # cs) of
        Some rest \<Rightarrow> Some ([], rest)
      | None \<Rightarrow>
          (case until_fence cs of
             Some (code, rest) \<Rightarrow> Some (c # code, rest)
           | None \<Rightarrow> None))"

text \<open>
  A match of the whole expression, a fence, \<open>(\w+)?\<close>, a newline, the lazy group and a
  fence, at the start of \<open>s\<close>: the two groups and what follows the match. The greedy
  \<open>\w+\<close> takes the longest run of word characters; a shorter run, or none, would leave a
  word character where the newline has to be, so backtracking into the group never
  yields a match. A group that takes no part in the match is \<open>undefined\<close> (\<open>None\<close>).
\<close>

definition match_here ::
  "js_string \<Rightarrow> (js_string option \<times> js_string \<times> js_string) option" where
  "match_here s =
     (case strip_prefix fence s of
        None \<Rightarrow> None
      | Some s1 \<Rightarrow>
          (let w = takeWhile is_word_char s1; s2 = dropWhile is_word_char s1
           in case s2 of
                [] \<Rightarrow> None
              | c # s3 \<Rightarrow>
                  if c \<noteq> newline then None
                  else (case until_fence s3 of
                          None \<Rightarrow> None
                        | Some (code, rest) \<Rightarrow>
                            Some (if w = [] then None else Some w, code, rest))))"

lemma strip_prefix_Some: "strip_prefix p s = Some r \<Longrightarrow> s = p @ r"
  by (induction p s rule: strip_prefix.induct) (auto split: if_splits)

lemma until_fence_Some: "until_fence s = Some (code, rest) \<Longrightarrow> s = code @ fence @ rest"
  by (induction s arbitrary: code) (auto split: option.splits dest: strip_prefix_Some)

lemma match_here_Some:
  assumes "match_here s = Some (lang, code, rest)"
  shows "s = fence @ (case lang of None \<Rightarrow> [] | Some w \<Rightarrow> w) @ [newline] @ code @ fence @ rest"
proof -
  from assms obtain s1 where s1: "strip_prefix fence s = Some s1"
    by (auto simp: match_here_def split: option.splits)
  from assms s1 obtain s3 where s3: "dropWhile is_word_char s1 = newline # s3"
    and u: "until_fence s3 = Some (code, rest)"
    and l: "lang = (if takeWhile is_word_char s1 = [] then None
                    else Some (takeWhile is_word_char s1))"
    by (auto simp: match_here_def Let_def split: option.splits list.splits if_splits)
  have "s1 = takeWhile is_word_char s1 @ dropWhile is_word_char s1" by simp
  with s3 have "s1 = takeWhile is_word_char s1 @ newline # s3" by simp
  moreover have "(case lang of None \<Rightarrow> [] | Some w \<Rightarrow> w) = takeWhile is_word_char s1"
    using l by simp
  ultimately show ?thesis
    using strip_prefix_Some [OF s1] until_fence_Some [OF u] by simp
qed

lemma match_here_shorter: "match_here s = Some (lang, code, rest) \<Longrightarrow> length rest < length s"
  by (drule match_here_Some) (simp add: fence_def)

text \<open>
  \<open>String.prototype.split\<close> with this expression. The scan tries a match at each
  position from the end of the last match on; \<open>acc\<close> holds the characters passed since
  then. A match closes the piece before it and adds the two groups; the end of the
  text closes the last piece. The array alternates between a piece and the groups of
  a match.
\<close>

function split_from :: "js_string \<Rightarrow> js_string \<Rightarrow> js_string option list" where
  "split_from acc s =
     (case match_here s of
        Some (lang, code, rest) \<Rightarrow> Some acc # lang # Some code # split_from [] rest
      | None \<Rightarrow>
          (case s of
             [] \<Rightarrow> [Some acc]
           | c # cs \<Rightarrow> split_from (acc @ [c]) cs))"
  by pat_completeness auto
termination
  by (relation "measure (\<lambda>(acc, s). length s)") (auto dest: match_here_shorter)

declare split_from.simps [simp del]

definition split_diagnosis :: "js_string \<Rightarrow> js_string option list" where
  "split_diagnosis text = split_from [] text"






subsection \<open>\<open>AgentGraph.tsx\<close>: the layout of the nodes\<close>

text \<open>
  A JavaScript \<open>Map\<close> from node ids to nodes, in insertion order: \<open>set\<close> on a key the
  map holds replaces the value where it stands, \<open>set\<close> on a new key appends.
\<close>

type_synonym NodeMap = "(string \<times> Node) list"

fun Map_set :: "string \<Rightarrow> Node \<Rightarrow> NodeMap \<Rightarrow> NodeMap" where
  "Map_set k v [] = [(k, v)]"
| "Map_set k v ((k', v') # m) =
     (if k' = k then (k, v) # m else (k', v') # Map_set k v m)"

definition new_Map :: "(string \<times> Node) list \<Rightarrow> NodeMap" where
  "new_Map entries = foldl (\<lambda>m (k, v). Map_set k v m) [] entries"

definition Map_get :: "string \<Rightarrow> NodeMap \<Rightarrow> Node option" where
  "Map_get k m = map_of m k"

definition Map_values :: "NodeMap \<Rightarrow> Node list" where
  "Map_values m = map snd m"

text \<open>
  The object literal \<open>positions\<close>, read as \<open>positions[node.id]\<close>. An own entry is a
  position. The literal is a plain object, so an id that names a member of
  \<open>Object.prototype\<close> reads that member, which is truthy and has neither \<open>x\<close> nor \<open>y\<close>.
  Every other id reads \<open>undefined\<close> (\<open>None\<close>).
\<close>

datatype position_entry = Position int int | Inherited

definition Object_prototype_names :: "string list" where
  "Object_prototype_names =
     [''constructor'', ''hasOwnProperty'', ''isPrototypeOf'', ''propertyIsEnumerable'',
      ''toLocaleString'', ''toString'', ''valueOf'', ''__proto__'', ''__defineGetter__'',
      ''__defineSetter__'', ''__lookupGetter__'', ''__lookupSetter__'']"

definition positions :: "string \<Rightarrow> position_entry option" where
  "positions k =
     (if k = ''__start__'' then Some (Position 400 50)
      else if k = ''plan_workflow'' then Some (Position 400 150)
      else if k = ''guardrails'' then Some (Position 200 250)
      else if k = ''db_agent'' then Some (Position 300 350)
      else if k = ''viz_agent'' then Some (Position 400 350)
      else if k = ''web_agent'' then Some (Position 500 350)
      else if k = ''respond'' then Some (Position 400 450)
      else if k = ''__end__'' then Some (Position 400 550)
      else if k \<in> set Object_prototype_names then Some Inherited
      else None)"

text \<open>The remainder \<open>a % b\<close> on integers, \<open>b\<close> positive: its sign is that of \<open>a\<close>.\<close>

definition js_rem :: "int \<Rightarrow> int \<Rightarrow> int" where
  "js_rem a b = (if a \<ge> 0 then a mod b else - ((- a) mod b))"

text \<open>
  The body of the \<open>forEach\<close> of \<open>positionNodes\<close>: the node of the map under the id of
  \<open>node\<close> gets its coordinates. \<open>Math.floor(index / 5)\<close> is the integer quotient.
\<close>

definition place_node :: "Node list \<Rightarrow> NodeMap \<Rightarrow> Node \<Rightarrow> NodeMap" where
  "place_node nodes nodeMap node =
     (case Map_get (node_id node) nodeMap of
        None \<Rightarrow> nodeMap
      | Some mapNode \<Rightarrow>
          (case positions (node_id node) of
             Some (Position x y) \<Rightarrow>
               Map_set (node_id node) (mapNode\<lparr>node_x := Some x, node_y := Some y\<rparr>) nodeMap
           | Some Inherited \<Rightarrow>
               Map_set (node_id node) (mapNode\<lparr>node_x := None, node_y := None\<rparr>) nodeMap
           | None \<Rightarrow>
               (let index = findIndex (\<lambda>n. node_id n = node_id node) nodes
                in Map_set (node_id node)
                     (mapNode\<lparr>node_x := Some (100 + js_rem index 5 * 150),
                              node_y := Some (100 + (index div 5) * 100)\<rparr>)
                     nodeMap)))"

definition positionNodes :: "Node list \<Rightarrow> Edge list \<Rightarrow> Node list" where
  "positionNodes nodes edges =
     (let nodeMap = new_Map (map (\<lambda>n. (node_id n, n)) nodes);
          nodeMap = foldl (place_node nodes) nodeMap nodes
      in Map_values nodeMap)"

subsection \<open>\<open>AgentGraph.tsx\<close>: state, data fetching, zoom and pan\<close>

record Point =
  pt_x :: real
  pt_y :: real

record AgentGraph_state =
  graphData :: "GraphData option"
  ag_loading :: bool
  ag_error :: "string option"
  zoom :: real
  panX :: real
  panY :: real
  isDragging :: bool
  lastMousePos :: Point

definition AgentGraph_initial :: AgentGraph_state where
  "AgentGraph_initial =
     \<lparr>graphData = None, ag_loading = True, ag_error = None, zoom = 1, panX = 0, panY = 0,
      isDragging = False, lastMousePos = \<lparr>pt_x = 0, pt_y = 0\<rparr>\<rparr>"

definition fetchGraphData :: "js_error + GraphData Response \<Rightarrow> AgentGraph_state effect" where
  "fetchGraphData fetched =
     try_catch_finally
       (\<lambda>s. let s = s\<lparr>ag_loading := True\<rparr>
            in case getAgentGraph fetched of
                 Inl err \<Rightarrow> (Some err, s)
               | Inr data \<Rightarrow>
                   (let positionedNodes = positionNodes (gd_nodes data) (gd_edges data)
                    in (None, s\<lparr>graphData := Some (data\<lparr>gd_nodes := positionedNodes\<rparr>),
                                 ag_error := None\<rparr>)))
       (\<lambda>err s. (None, s\<lparr>ag_error := Some ''Failed to fetch agent graph''\<rparr>))
       (\<lambda>s. (None, s\<lparr>ag_loading := False\<rparr>))"

text \<open>
  The handlers. \<open>Math.max\<close> and \<open>Math.min\<close> compare and are exact; the products, the
  quotient and the sums are rounded. The divisor of \<open>zoomOut\<close> is the literal \<open>1.2\<close>,
  which is not zero, so the quotient is written directly.
\<close>

definition handleWheel :: "(real \<Rightarrow> real) \<Rightarrow> real \<Rightarrow> AgentGraph_state \<Rightarrow> AgentGraph_state" where
  "handleWheel rnd deltaY s =
     (let zoomFactor = (if deltaY > 0 then rnd 0.9 else rnd 1.1)
      in s\<lparr>zoom := max (rnd 0.1) (min 3 (js_mul rnd (zoom s) zoomFactor))\<rparr>)"

definition handleMouseDown :: "real \<Rightarrow> real \<Rightarrow> AgentGraph_state \<Rightarrow> AgentGraph_state" where
  "handleMouseDown clientX clientY s =
     s\<lparr>isDragging := True, lastMousePos := \<lparr>pt_x = clientX, pt_y = clientY\<rparr>\<rparr>"

definition handleMouseMove ::
  "(real \<Rightarrow> real) \<Rightarrow> real \<Rightarrow> real \<Rightarrow> AgentGraph_state \<Rightarrow> AgentGraph_state" where
  "handleMouseMove rnd clientX clientY s =
     (if \<not> isDragging s then s
      else
        (let deltaX = js_sub rnd clientX (pt_x (lastMousePos s));
             deltaY = js_sub rnd clientY (pt_y (lastMousePos s))
         in s\<lparr>panX := js_add rnd (panX s) deltaX,
               panY := js_add rnd (panY s) deltaY,
               lastMousePos := \<lparr>pt_x = clientX, pt_y = clientY\<rparr>\<rparr>))"

definition handleMouseUp :: "AgentGraph_state \<Rightarrow> AgentGraph_state" where
  "handleMouseUp s = s\<lparr>isDragging := False\<rparr>"

definition zoomIn :: "(real \<Rightarrow> real) \<Rightarrow> AgentGraph_state \<Rightarrow> AgentGraph_state" where
  "zoomIn rnd s = s\<lparr>zoom := min 3 (js_mul rnd (zoom s) (rnd 1.2))\<rparr>"

definition zoomOut :: "(real \<Rightarrow> real) \<Rightarrow> AgentGraph_state \<Rightarrow> AgentGraph_state" where
  "zoomOut rnd s = s\<lparr>zoom := max (rnd 0.1) (rnd (zoom s / rnd 1.2))\<rparr>"

definition resetView :: "AgentGraph_state \<Rightarrow> AgentGraph_state" where
  "resetView s = s\<lparr>zoom := 1, panX := 0, panY := 0\<rparr>"

text \<open>
  The events of the graph view and the handler each one runs (\<open>onMouseLeave\<close> runs
  \<open>handleMouseUp\<close>); a pan drag is a mouse-down, mouse moves and a mouse-up.
\<close>

datatype AgentGraph_event =
    Wheel real
  | MouseDown real real
  | MouseMove real real
  | MouseUp
  | MouseLeave
  | ClickZoomIn
  | ClickZoomOut
  | ClickResetView

fun AgentGraph_handle ::
  "(real \<Rightarrow> real) \<Rightarrow> AgentGraph_state \<Rightarrow> AgentGraph_event \<Rightarrow> AgentGraph_state" where
  "AgentGraph_handle rnd s (Wheel deltaY) = handleWheel rnd deltaY s"
| "AgentGraph_handle rnd s (MouseDown clientX clientY) = handleMouseDown clientX clientY s"
| "AgentGraph_handle rnd s (MouseMove clientX clientY) = handleMouseMove rnd clientX clientY s"
| "AgentGraph_handle rnd s MouseUp = handleMouseUp s"
| "AgentGraph_handle rnd s MouseLeave = handleMouseUp s"
| "AgentGraph_handle rnd s ClickZoomIn = zoomIn rnd s"
| "AgentGraph_handle rnd s ClickZoomOut = zoomOut rnd s"
| "AgentGraph_handle rnd s ClickResetView = resetView s"

definition AgentGraph_run ::
  "(real \<Rightarrow> real) \<Rightarrow> AgentGraph_event list \<Rightarrow> AgentGraph_state \<Rightarrow> AgentGraph_state" where
  "AgentGraph_run rnd events s = foldl (AgentGraph_handle rnd) s events"

section \<open>The banking-assistant front end\<close>

subsection \<open>\<open>ResultCard.tsx\<close>: the choice of the chart\<close>

text \<open>
  The chart components the file imports, each with its \<open>data\<close> and \<open>options\<close> props.
\<close>

datatype chart_element =
    Line js_value js_value
  | Bar js_value js_value
  | Pie js_value js_value

text \<open>\<open>payload && payload.chartjs\<close>.\<close>

definition chartPayload :: "js_value \<Rightarrow> js_error + js_value" where
  "chartPayload payload =
     (if truthy payload then get_property payload ''chartjs'' else Inr payload)"

text \<open>\<open>renderChart\<close>, as a function of \<open>chartPayload\<close>; \<open>Inr None\<close> is \<open>null\<close>.\<close>

definition renderChart :: "js_value \<Rightarrow> js_error + chart_element option" where
  "renderChart cp =
     (if \<not> truthy cp then Inr None
      else
        case get_property cp ''type'' of
          Inl err \<Rightarrow> Inl err
        | Inr t \<Rightarrow>
            (case toLowerCase (if truthy t then t else JString ''bar'') of
               Inl err \<Rightarrow> Inl err
             | Inr type \<Rightarrow>
                 (case get_property cp ''data'' of
                    Inl err \<Rightarrow> Inl err
                  | Inr d \<Rightarrow>
                      (case get_property cp ''options'' of
                         Inl err \<Rightarrow> Inl err
                       | Inr opts \<Rightarrow>
                           (let data = (if truthy d then d
                                        else JObject [(''labels'', JArray []),
                                                      (''datasets'', JArray [])]);
                                options = (if truthy opts then opts else JObject [])
                            in if type = ''line'' then Inr (Some (Line data options))
                               else Inr (Some (Bar data options)))))))"

text \<open>
  The chart of the card: \<open>{chartPayload && (<div>{renderChart()}</div>)}\<close>. \<open>Inr None\<close> is
  a card without a chart; an error is a render that throws.
\<close>

definition ResultCard_chart :: "js_value \<Rightarrow> js_error + chart_element option" where
  "ResultCard_chart payload =
     (case chartPayload payload of
        Inl err \<Rightarrow> Inl err
      | Inr cp \<Rightarrow> if truthy cp then renderChart cp else Inr None)"

section \<open>Notions the properties are stated with\<close>

subsection \<open>Segments of a diagnosis\<close>











subsection \<open>The layout of a node\<close>

text \<open>
  The node at index \<open>i\<close> with its coordinates: those of the table for an id the table
  holds, those of the grid for another id.
\<close>

definition place_spec :: "nat \<Rightarrow> Node \<Rightarrow> Node" where
  "place_spec i n =
     (case positions (node_id n) of
        Some (Position x y) \<Rightarrow> n\<lparr>node_x := Some x, node_y := Some y\<rparr>
      | _ \<Rightarrow> n\<lparr>node_x := Some (100 + int (i mod 5) * 150),
                 node_y := Some (100 + int (i div 5) * 100)\<rparr>)"

text \<open>
  What \<open>place_node\<close> does to the node under the key \<open>k\<close>, and a map entry changed by
  \<open>g\<close> when its key is in \<open>K\<close>.
\<close>

definition locate :: "Node list \<Rightarrow> string \<Rightarrow> Node \<Rightarrow> Node" where
  "locate nodes k v =
     (case positions k of
        Some (Position x y) \<Rightarrow> v\<lparr>node_x := Some x, node_y := Some y\<rparr>
      | Some Inherited \<Rightarrow> v\<lparr>node_x := None, node_y := None\<rparr>
      | None \<Rightarrow>
          (let index = findIndex (\<lambda>n. node_id n = k) nodes
           in v\<lparr>node_x := Some (100 + js_rem index 5 * 150),
                node_y := Some (100 + (index div 5) * 100)\<rparr>))"

definition upd ::
  "(string \<Rightarrow> Node \<Rightarrow> Node) \<Rightarrow> string set \<Rightarrow> string \<times> Node \<Rightarrow> string \<times> Node" where
  "upd g K e = (if fst e \<in> K then (fst e, g (fst e) (snd e)) else e)"

subsection \<open>Chart types\<close>

text \<open>
  A chart type the component can lowercase: a string, or a falsy value, which the
  default replaces. \<open>lowercases_to_line\<close> holds of the strings that are \<open>line\<close> up to
  case.
\<close>

definition string_or_falsy :: "js_value \<Rightarrow> bool" where
  "string_or_falsy t = (case t of JString s \<Rightarrow> True | _ \<Rightarrow> \<not> truthy t)"

definition lowercases_to_line :: "js_value \<Rightarrow> bool" where
  "lowercases_to_line t =
     (case t of JString s \<Rightarrow> map lower_char s = ''line'' | _ \<Rightarrow> False)"

chapter \<open>Properties\<close>

section \<open>The dashboard\<close>


lemma fetchData_no_throw: "fst (fetchData f0 f1 f2 s) = None"
  by (simp add: fetchData_def try_catch_finally_def split: prod.splits option.splits)











text \<open>
  Claim C10. The derived statistics are total. The error rate is always a finite
  number: \<open>0\<close> for an empty trace list, and otherwise \<open>Math.round\<close> of the rounded
  product by \<open>100\<close> of the rounded quotient of \<open>errorTraces\<close> by the number of traces,
  whose divisor is then not zero; this holds for every rounding. \<open>errorTraces\<close> is the
  number of positions of the trace list whose trace has \<open>error_count > 0\<close>. The Total
  Events figure is \<open>0\<close> without a status, the trace count of the database when the
  database is connected, and that of the memory store when it is not.
\<close>

theorem dashboard_statistics_total:
  "errorRate rnd s =
     Some (if traces s = [] then 0
           else Math_round (rnd (rnd (real (errorTraces s) / real (length (traces s))) * 100)))
   \<and> errorTraces s = card {i. i < length (traces s) \<and> error_count (traces s ! i) > 0}
   \<and> totalTraces (s\<lparr>status := None\<rparr>) = 0
   \<and> totalTraces (s\<lparr>status := Some st\<rparr>) =
        (if connected (database st) then trace_count (database st)
         else mem_trace_count (memory st))"
  by (simp add: errorRate_def js_div_def js_mul_def errorTraces_def totalTraces_def
      length_filter_conv_card)

subsection \<open>Pagination\<close>

lemma filter_less_upt: "filter (\<lambda>i. i < n) [a..<b] = [a..<min b n]"
  by (induction b) auto

lemma map_nth_upt_take_drop:
  "b \<le> length xs \<Longrightarrow> map (\<lambda>i. xs ! i) [a..<b] = take (b - a) (drop a xs)"
  by (rule nth_equalityI) auto

lemma slice_page:
  "map (\<lambda>i. xs ! i) (filter (\<lambda>i. i < length xs) [a..<b]) = take (b - a) (drop a xs)"
proof -
  have "map (\<lambda>i. xs ! i) (filter (\<lambda>i. i < length xs) [a..<b])
        = take (min b (length xs) - a) (drop a xs)"
    by (simp add: filter_less_upt map_nth_upt_take_drop)
  also have "\<dots> = take (b - a) (drop a xs)"
    by (cases "b \<le> length xs") (simp_all add: min_def)
  finally show ?thesis .
qed

lemma totalPages_div: "totalPages s = int ((length (traces s) + 9) div 10)"
  unfolding totalPages_def tracesPerPage_def by linarith

lemma js_slice_window:
  assumes "0 \<le> a" "0 \<le> n"
  shows "js_slice xs a (a + n) = take (nat n) (drop (nat a) xs)"
proof (cases "a < int (length xs)")
  case True
  with assms have "js_slice xs a (a + n) =
      take (nat (min (a + n) (int (length xs)) - a)) (drop (nat a) xs)"
    by (simp add: js_slice_def Let_def min_def)
  also have "\<dots> = take (nat n) (drop (nat a) xs)"
    using True assms by (cases "a + n \<le> int (length xs)") (simp_all add: min_def)
  finally show ?thesis .
next
  case False
  with assms show ?thesis
    by (simp add: js_slice_def Let_def min_def)
qed

text \<open>
  The pages from the first to the last, one after the other, are the trace list: every
  trace is on one page, in the order of the list.
\<close>

lemma concat_windows:
  "concat (map (\<lambda>k. take m (drop (k * m) xs)) [0..<n]) = take (n * m) xs"
proof (induction n)
  case 0
  then show ?case by simp
next
  case (Suc n)
  have "take (n * m) xs @ take m (drop (n * m) xs) = take (n * m + m) xs"
    by (simp add: take_add)
  with Suc show ?case by (simp add: add.commute)
qed

lemma pages_cover_traces:
  "concat (map (\<lambda>k. currentTraces (s\<lparr>currentPage := int k + 1\<rparr>))
             [0..<nat (totalPages s)])
   = traces s"
proof -
  have page: "currentTraces (s\<lparr>currentPage := int k + 1\<rparr>)
              = take 10 (drop (k * 10) (traces s))" for k
    using js_slice_window [of "int k * 10" 10 "traces s"]
    by (simp add: currentTraces_def startIndex_def endIndex_def tracesPerPage_def
        nat_mult_distrib)
  have "length (traces s) \<le> nat (totalPages s) * 10"
    by (simp add: totalPages_div)
  then show ?thesis
    by (simp add: page concat_windows)
qed

text \<open>
  The page cursor never leaves the positive numbers: it starts at \<open>1\<close>, a refresh does
  not touch it, and no click on the pagination controls takes it below \<open>1\<close>.
\<close>

lemma currentPage_initial: "currentPage Dashboard_initial = 1"
  by (simp add: Dashboard_initial_def)

lemma currentPage_click:
  "1 \<le> currentPage s \<Longrightarrow> 1 \<le> currentPage (Dashboard_onClick c s)"
  by (cases c)
    (auto simp: goToPrevious_def goToNext_def goToPage_def pagination_shown_def
        Dashboard_render_def Dashboard_main_def
      split: Dashboard_view.splits option.splits if_splits)

text \<open>
  Claim C2. On any page \<open>p \<ge> 1\<close> the table shows exactly the traces at the indices
  \<open>(p - 1) * 10\<close> to \<open>p * 10 - 1\<close> of the list, those of them the list has, in order; the
  number of pages is the ceiling of a tenth of the length, that is
  \<open>(length + 9) div 10\<close>; Previous never takes the page below \<open>1\<close> and Next never takes
  it above the number of pages.
\<close>

theorem pagination_window:
  assumes "1 \<le> currentPage s"
  shows "currentTraces s =
           map (\<lambda>i. traces s ! i)
             (filter (\<lambda>i. i < length (traces s))
                [nat ((currentPage s - 1) * 10) ..< nat (currentPage s * 10)])
       \<and> totalPages s = int ((length (traces s) + 9) div 10)
       \<and> 1 \<le> currentPage (goToPrevious s)
       \<and> currentPage (goToNext s) \<le> totalPages s"
proof -
  let ?p = "currentPage s"
  have "nat (?p * 10) = nat ((?p - 1) * 10) + 10"
    using assms by (simp add: nat_add_distrib algebra_simps nat_eq_iff)
  then have w: "nat (?p * 10) - nat ((?p - 1) * 10) = nat 10"
    by simp
  have "currentTraces s = take (nat 10) (drop (nat ((?p - 1) * 10)) (traces s))"
    using assms js_slice_window [of "(?p - 1) * 10" 10 "traces s"]
    by (simp add: currentTraces_def startIndex_def endIndex_def tracesPerPage_def)
  then have page: "currentTraces s =
           map (\<lambda>i. traces s ! i)
             (filter (\<lambda>i. i < length (traces s))
                [nat ((?p - 1) * 10) ..< nat (?p * 10)])"
    by (simp only: slice_page w)
  show ?thesis
    using page by (simp add: totalPages_div goToPrevious_def goToNext_def)
qed

text \<open>
  The claim on page 2 of twelve traces: the page holds the eleventh and the twelfth
  trace, there are two pages, Previous leads to page 1 and Next stays on page 2.
\<close>

theorem pagination_window_witness:
  "(let row = (\<lambda>k. \<lparr>trace_id = ''t'', span_count = k, error_count = 0, duration_ms = 5\<rparr>);
        s = Dashboard_initial
              \<lparr>traces := map row [1, 2, 3, 4, 5, 6, 7, 8, 9, 10, 11, 12], currentPage := 2\<rparr>
    in 1 \<le> currentPage s
     \<and> currentTraces s = [row 11, row 12]
     \<and> totalPages s = 2
     \<and> currentPage (goToPrevious s) = 1
     \<and> currentPage (goToNext s) = 2)"
  using pagination_window
    [of "Dashboard_initial
          \<lparr>traces := map (\<lambda>k. \<lparr>trace_id = ''t'', span_count = k, error_count = 0,
                                 duration_ms = 5\<rparr>)
                       [1, 2, 3, 4, 5, 6, 7, 8, 9, 10, 11, 12],
           currentPage := 2\<rparr>"]
  by (simp add: Dashboard_initial_def Let_def goToPrevious_def goToNext_def upt_rec)

section \<open>The API client and its call sites\<close>

text \<open>
  Claim C6, as the code has it. For every response, \<open>fetchJson\<close> throws the error that
  names the status code exactly when the response is not ok. For an ok response it
  yields what \<open>response.json()\<close> yields: the parsed body, unchanged, when the body is
  JSON, and the parser's \<open>SyntaxError\<close> when it is not. No call site lets an error of
  the fetch out: \<open>fetchData\<close> never throws, \<open>fetchTraceDetails\<close> (for a trace id that is
  not empty) and \<open>fetchGraphData\<close> end with loading over, and with their error message
  set when the fetch failed and cleared, beside the fetched data, when it succeeded.
\<close>

theorem fetchJson_outcomes:
  "(fetchJson (Inr response) =
       Inl (Error (''HTTP error! status: '' @ string_of_nat (resp_status response))))
     = (\<not> resp_ok response)
   \<and> fetchJson (Inr (response\<lparr>resp_ok := True\<rparr>)) =
       (case resp_json response of None \<Rightarrow> Inl SyntaxError | Some body \<Rightarrow> Inr body)
   \<and> fst (fetchData f0 f1 f2 ds) = None
   \<and> fetchTraceDetails (Some (c # cs)) fetched ts =
       (None,
        case getTraceDetails fetched of
          Inl err \<Rightarrow>
            ts\<lparr>tv_loading := False, tv_error := Some ''Failed to fetch trace details''\<rparr>
        | Inr traceData \<Rightarrow>
            ts\<lparr>tv_loading := False, tv_events := traceData, tv_error := None\<rparr>)
   \<and> fetchGraphData graph gs =
       (None,
        case getAgentGraph graph of
          Inl err \<Rightarrow>
            gs\<lparr>ag_loading := False, ag_error := Some ''Failed to fetch agent graph''\<rparr>
        | Inr data \<Rightarrow>
            gs\<lparr>ag_loading := False,
               graphData :=
                 Some (data\<lparr>gd_nodes := positionNodes (gd_nodes data) (gd_edges data)\<rparr>),
               ag_error := None\<rparr>)"
  by (auto simp: fetchJson_def fetchData_no_throw fetchTraceDetails_def fetchGraphData_def
      try_catch_finally_def Let_def split: sum.splits option.splits)

text \<open>
  Claim C6 as stated fails on an ok response whose body is not JSON (a proxy's HTML
  page under status 200): \<open>fetchJson\<close> returns no body, it rejects with the parser's
  error, and that error does not name the status code.
\<close>

theorem fetchJson_not_json_counterexample:
  "resp_ok \<lparr>resp_ok = True, resp_status = 200, resp_json = (None :: TraceDetails option)\<rparr>
   \<and> fetchJson
        (Inr \<lparr>resp_ok = True, resp_status = 200, resp_json = (None :: TraceDetails option)\<rparr>)
       = Inl SyntaxError
   \<and> (\<forall>body.
        fetchJson
          (Inr \<lparr>resp_ok = True, resp_status = 200, resp_json = (None :: TraceDetails option)\<rparr>)
        \<noteq> Inr body)"
  by (simp add: fetchJson_def)

section \<open>Initial states and navigation\<close>




section \<open>The split of a diagnosis\<close>

subsection \<open>The matcher against the expression\<close>

















subsection \<open>The split\<close>




text \<open>Two texts, split by hand through the definitions.\<close>

lemma split_from_Nil: "split_from acc [] = [Some acc]"
  by (subst split_from.simps) (simp add: match_here_def fence_def)

lemma split_from_no_match:
  "match_here (c # cs) = None \<Longrightarrow> split_from acc (c # cs) = split_from (acc @ [c]) cs"
  by (subst split_from.simps) simp

lemma split_from_match:
  "match_here s = Some (lang, code, rest) \<Longrightarrow>
   split_from acc s = Some acc # lang # Some code # split_from [] rest"
  by (subst split_from.simps) simp

lemma match_here_example:
  "match_here [96, 96, 96, 112, 121, 10, 120, 96, 96, 96, 98] = Some (Some [112, 121], [120], [98])"
  "match_here [96, 96, 96, 97, 32, 96, 96, 96, 10, 120, 96, 96, 96] = None"
  "match_here [96, 96, 96, 10, 120, 96, 96, 96] = Some (None, [120], [])"
  by (simp_all add: match_here_def fence_def backtick_def newline_def is_word_char_def)

lemma match_here_other: "c \<noteq> 96 \<Longrightarrow> match_here (c # cs) = None"
  by (simp add: match_here_def fence_def backtick_def)

lemma match_here_short:
  "c \<noteq> 96 \<Longrightarrow> match_here (a # c # cs) = None"
  "c \<noteq> 96 \<Longrightarrow> match_here (a # b # c # cs) = None"
  by (simp_all add: match_here_def fence_def backtick_def)

lemma split_diagnosis_example:
  "split_diagnosis [97, 96, 96, 96, 112, 121, 10, 120, 96, 96, 96, 98]
     = [Some [97], Some [112, 121], Some [120], Some [98]]
   \<and> split_diagnosis [96, 96, 96, 97, 32, 96, 96, 96, 10, 120, 96, 96, 96]
     = [Some [96, 96, 96, 97, 32], None, Some [120], Some []]"
  by (simp add: split_diagnosis_def split_from_Nil split_from_no_match split_from_match
      match_here_example match_here_other match_here_short)


section \<open>The agent graph\<close>

subsection \<open>Zoom\<close>

lemma rnd_facts:
  assumes "ieee_rounding rnd"
  shows "0 \<le> rnd 0.1" "rnd 0.1 \<le> 1" "1 \<le> rnd 1.2" "rnd (rnd 0.1) = rnd 0.1"
proof -
  from assms have m: "\<And>x y. x \<le> y \<Longrightarrow> rnd x \<le> rnd y"
    and i: "\<And>x. rnd (rnd x) = rnd x" and z: "rnd 0 = 0" and o: "rnd 1 = 1"
    by (auto simp: ieee_rounding_def mono_def)
  show "0 \<le> rnd 0.1" using m [of 0 "0.1"] z by simp
  show "rnd 0.1 \<le> 1" using m [of "0.1" 1] o by simp
  show "1 \<le> rnd 1.2" using m [of 1 "1.2"] o by simp
  show "rnd (rnd 0.1) = rnd 0.1" by (rule i)
qed

lemma id_rounding: "ieee_rounding (\<lambda>x. x)"
  by (simp add: ieee_rounding_def mono_def)

text \<open>
  Every handler keeps the zoom in range. The wheel clamps on both sides. \<open>zoomIn\<close>
  clamps from above only: from below, the factor is at least 1, so the exact product
  is at least the old zoom, and rounding is monotone and leaves the lower bound as it
  is. \<open>zoomOut\<close> is the mirror image.
\<close>

lemma handle_zoom_in_range:
  assumes r: "ieee_rounding rnd" and z: "rnd 0.1 \<le> zoom s \<and> zoom s \<le> 3"
  shows "rnd 0.1 \<le> zoom (AgentGraph_handle rnd s ev) \<and> zoom (AgentGraph_handle rnd s ev) \<le> 3"
proof -
  from r have m: "\<And>x y. x \<le> y \<Longrightarrow> rnd x \<le> rnd y" and t: "rnd 3 = 3"
    by (auto simp: ieee_rounding_def mono_def)
  note f = rnd_facts [OF r]
  have lo3: "rnd 0.1 \<le> 3" using f(2) by simp
  have z0: "0 \<le> zoom s" using z f(1) by simp
  have up: "rnd 0.1 \<le> rnd (zoom s * rnd 1.2)"
  proof -
    have "zoom s * 1 \<le> zoom s * rnd 1.2"
      using z0 f(3) by (intro mult_left_mono) auto
    then have "rnd 0.1 \<le> zoom s * rnd 1.2" using z by simp
    from m [OF this] show ?thesis by (simp add: f(4))
  qed
  have down: "rnd (zoom s / rnd 1.2) \<le> 3"
  proof -
    have "zoom s / rnd 1.2 \<le> zoom s / 1"
      using z0 f(3) by (intro divide_left_mono) auto
    then have "zoom s / rnd 1.2 \<le> 3" using z by simp
    from m [OF this] show ?thesis by (simp add: t)
  qed
  show ?thesis
  proof (cases ev)
    case (Wheel deltaY)
    then show ?thesis using lo3 by (simp add: handleWheel_def Let_def)
  next
    case (MouseMove x y)
    then show ?thesis using z by (simp add: handleMouseMove_def Let_def)
  next
    case ClickZoomIn
    then show ?thesis using up lo3 by (simp add: zoomIn_def js_mul_def)
  next
    case ClickZoomOut
    then show ?thesis using down lo3 by (simp add: zoomOut_def)
  next
    case ClickResetView
    then show ?thesis using f(2) by (simp add: resetView_def)
  qed (use z in \<open>simp_all add: handleMouseDown_def handleMouseUp_def\<close>)
qed

lemma run_zoom_in_range:
  assumes "ieee_rounding rnd" "rnd 0.1 \<le> zoom s \<and> zoom s \<le> 3"
  shows "rnd 0.1 \<le> zoom (foldl (AgentGraph_handle rnd) s evs)
       \<and> zoom (foldl (AgentGraph_handle rnd) s evs) \<le> 3"
  using assms(2)
proof (induction evs arbitrary: s)
  case Nil
  then show ?case by simp
next
  case (Cons ev evs)
  from handle_zoom_in_range [OF assms(1) Cons.prems] show ?case
    by (simp add: Cons.IH)
qed

text \<open>
  Claim C4. From the initial view, after every finite sequence of wheel events,
  zoom-in and zoom-out clicks, mouse events of pan drags and resets, the zoom lies
  between the double \<open>0.1\<close> and \<open>3\<close>, for every rounding of the arithmetic that is
  monotone and leaves the doubles as they are; and a reset, in any state, sets the zoom
  to exactly 1 and both pan offsets to exactly 0.
\<close>

theorem zoom_in_range:
  assumes "ieee_rounding rnd"
  shows "rnd 0.1 \<le> zoom (AgentGraph_run rnd evs AgentGraph_initial)
       \<and> zoom (AgentGraph_run rnd evs AgentGraph_initial) \<le> 3
       \<and> zoom (resetView s) = 1 \<and> panX (resetView s) = 0 \<and> panY (resetView s) = 0"
proof -
  have "rnd 0.1 \<le> zoom AgentGraph_initial \<and> zoom AgentGraph_initial \<le> 3"
    using rnd_facts(2) [OF assms] by (simp add: AgentGraph_initial_def)
  from run_zoom_in_range [OF assms this, of evs] show ?thesis
    by (simp add: AgentGraph_run_def resetView_def)
qed

text \<open>
  The claim under exact arithmetic, on a zoom-out, a wheel turn, a drag and a zoom-in:
  the zoom ends at \<open>0.9\<close>, within the bounds.
\<close>

theorem zoom_in_range_witness:
  "ieee_rounding (\<lambda>x. x)
   \<and> zoom (AgentGraph_run (\<lambda>x. x)
             [ClickZoomOut, Wheel 1, MouseDown 0 0, MouseMove 3 4, MouseUp, ClickZoomIn]
             AgentGraph_initial) = 9 / 10
   \<and> (1 / 10 :: real) \<le> 9 / 10 \<and> (9 / 10 :: real) \<le> 3"
  using zoom_in_range
    [of "\<lambda>x. x" "[ClickZoomOut, Wheel 1, MouseDown 0 0, MouseMove 3 4, MouseUp, ClickZoomIn]"]
  by (simp add: id_rounding AgentGraph_run_def AgentGraph_initial_def zoomOut_def zoomIn_def
      handleWheel_def handleMouseDown_def handleMouseMove_def handleMouseUp_def js_mul_def
      js_add_def js_sub_def)

subsection \<open>Layout\<close>

lemma locate_idem: "locate nodes k (locate nodes k v) = locate nodes k v"
  by (simp add: locate_def Let_def split: option.splits position_entry.splits)

lemma Map_set_new: "k \<notin> fst ` set m \<Longrightarrow> Map_set k v m = m @ [(k, v)]"
  by (induction m) auto

lemma new_Map_distinct_aux:
  "distinct (map fst (m @ es)) \<Longrightarrow> foldl (\<lambda>m (k, v). Map_set k v m) m es = m @ es"
proof (induction es arbitrary: m)
  case Nil
  then show ?case by simp
next
  case (Cons e es)
  obtain k v where e: "e = (k, v)" by (cases e)
  from Cons.prems e have "k \<notin> fst ` set m" by auto
  then have "Map_set k v m = m @ [(k, v)]" by (rule Map_set_new)
  moreover from Cons.prems e have "distinct (map fst ((m @ [(k, v)]) @ es))" by simp
  ultimately show ?case using Cons.IH [of "m @ [(k, v)]"] e by simp
qed

lemma new_Map_distinct: "distinct (map fst es) \<Longrightarrow> new_Map es = es"
  using new_Map_distinct_aux [of "[]" es] by (simp add: new_Map_def)

lemma Map_set_present:
  "map_of m k = Some v \<Longrightarrow> distinct (map fst m) \<Longrightarrow>
   Map_set k (g k v) m = map (upd g {k}) m"
proof (induction m)
  case Nil
  then show ?case by simp
next
  case (Cons e m)
  obtain k' v' where e: "e = (k', v')" by (cases e)
  show ?case
  proof (cases "k' = k")
    case True
    with Cons.prems e have "v' = v" by simp
    moreover from Cons.prems e True have "k \<notin> fst ` set m" by auto
    then have "map (upd g {k}) m = m"
      by (intro map_idI) (auto simp: upd_def)
    moreover have "upd g {k} (k, v) = (k, g k v)"
      by (simp add: upd_def)
    ultimately show ?thesis using e True by simp
  next
    case False
    with Cons e show ?thesis by (simp add: upd_def)
  qed
qed

lemma map_of_None_upd: "map_of m k = None \<Longrightarrow> map (upd g {k}) m = m"
  by (intro map_idI) (auto simp: upd_def map_of_eq_None_iff)

lemma place_node_upd:
  assumes "distinct (map fst m)"
  shows "place_node nodes m node = map (upd (locate nodes) {node_id node}) m"
proof (cases "map_of m (node_id node)")
  case None
  then show ?thesis by (simp add: place_node_def Map_get_def map_of_None_upd)
next
  case (Some v)
  have "place_node nodes m node = Map_set (node_id node) (locate nodes (node_id node) v) m"
    using Some
    by (simp add: place_node_def Map_get_def locate_def Let_def
        split: option.splits position_entry.splits)
  with Map_set_present [OF Some assms, of "locate nodes"] show ?thesis by simp
qed

lemma fst_upd: "fst (upd g K e) = fst e"
  by (simp add: upd_def)

lemma upd_upd:
  "(\<And>k v. g k (g k v) = g k v) \<Longrightarrow> upd g K (upd g {k} e) = upd g (insert k K) e"
  by (cases e) (auto simp: upd_def)

lemma foldl_place_node:
  assumes "distinct (map fst m)"
  shows "foldl (place_node nodes) m xs = map (upd (locate nodes) (node_id ` set xs)) m"
  using assms
proof (induction xs arbitrary: m)
  case Nil
  then show ?case by (simp add: upd_def)
next
  case (Cons x xs)
  let ?m' = "map (upd (locate nodes) {node_id x}) m"
  have d: "distinct (map fst ?m')"
    using Cons.prems by (simp add: comp_def fst_upd)
  have "foldl (place_node nodes) m (x # xs) = foldl (place_node nodes) ?m' xs"
    using place_node_upd [OF Cons.prems] by simp
  also have "\<dots> = map (upd (locate nodes) (node_id ` set xs)) ?m'"
    by (rule Cons.IH [OF d])
  also have "\<dots> = map (upd (locate nodes) (node_id ` set (x # xs))) m"
    by (simp add: comp_def upd_upd [of "locate nodes", OF locate_idem])
  finally show ?case .
qed

lemma findIndex_nth:
  assumes "distinct (map f xs)" "i < length xs"
  shows "findIndex (\<lambda>x. f x = f (xs ! i)) xs = int i"
  using assms
proof (induction xs arbitrary: i)
  case Nil
  then show ?case by simp
next
  case (Cons x xs)
  show ?case
  proof (cases i)
    case 0
    then show ?thesis by simp
  next
    case (Suc j)
    with Cons.prems have "f x \<noteq> f (xs ! j)" by auto
    moreover from Cons.prems Suc have "findIndex (\<lambda>x. f x = f (xs ! j)) xs = int j"
      by (intro Cons.IH) auto
    ultimately show ?thesis using Suc by (simp add: Let_def)
  qed
qed

lemma positionNodes_locate:
  assumes "distinct (map node_id nodes)"
  shows "positionNodes nodes edges = map (\<lambda>n. locate nodes (node_id n) n) nodes"
proof -
  let ?es = "map (\<lambda>n. (node_id n, n)) nodes"
  have d: "distinct (map fst ?es)" using assms by (simp add: comp_def)
  have "positionNodes nodes edges =
          map snd (map (upd (locate nodes) (node_id ` set nodes)) ?es)"
    by (simp add: positionNodes_def Let_def new_Map_distinct [OF d] foldl_place_node [OF d]
        Map_values_def)
  also have "\<dots> = map (\<lambda>n. locate nodes (node_id n) n) nodes"
    by (simp add: comp_def upd_def)
  finally show ?thesis .
qed

lemma place_spec_fields:
  "node_id (place_spec i n) = node_id n"
  "node_label (place_spec i n) = node_label n"
  "node_type (place_spec i n) = node_type n"
  by (simp_all add: place_spec_def split: option.splits position_entry.splits)

lemma positions_table:
  "map positions
     [''__start__'', ''plan_workflow'', ''guardrails'', ''db_agent'', ''viz_agent'',
      ''web_agent'', ''respond'', ''__end__'']
   = [Some (Position 400 50), Some (Position 400 150), Some (Position 200 250),
      Some (Position 300 350), Some (Position 400 350), Some (Position 500 350),
      Some (Position 400 450), Some (Position 400 550)]"
  by (simp add: positions_def)

text \<open>
  Claim C5, as the code has it. For every list of nodes whose ids are pairwise
  distinct and none of which is the name of a member of \<open>Object.prototype\<close>,
  \<open>positionNodes\<close> returns the nodes in their order, each with its id, label and type
  unchanged: a node whose id is one of the eight ids of the table gets the coordinates
  of the table, and every other node, at index \<open>i\<close> of the input, gets
  \<open>x = 100 + (i mod 5) * 150\<close> and \<open>y = 100 + (i div 5) * 100\<close>.
\<close>

theorem positionNodes_layout:
  assumes "distinct (map node_id nodes)"
    and "\<forall>n \<in> set nodes. node_id n \<notin> set Object_prototype_names"
  shows "positionNodes nodes edges = map (\<lambda>i. place_spec i (nodes ! i)) [0..<length nodes]
       \<and> map node_id (positionNodes nodes edges) = map node_id nodes
       \<and> map node_label (positionNodes nodes edges) = map node_label nodes
       \<and> map node_type (positionNodes nodes edges) = map node_type nodes
       \<and> map positions
            [''__start__'', ''plan_workflow'', ''guardrails'', ''db_agent'', ''viz_agent'',
             ''web_agent'', ''respond'', ''__end__'']
          = [Some (Position 400 50), Some (Position 400 150), Some (Position 200 250),
             Some (Position 300 350), Some (Position 400 350), Some (Position 500 350),
             Some (Position 400 450), Some (Position 400 550)]"
proof -
  have eq: "positionNodes nodes edges = map (\<lambda>i. place_spec i (nodes ! i)) [0..<length nodes]"
  proof (rule nth_equalityI)
    show "length (positionNodes nodes edges)
          = length (map (\<lambda>i. place_spec i (nodes ! i)) [0..<length nodes])"
      by (simp add: positionNodes_locate [OF assms(1)])
  next
    fix i assume "i < length (positionNodes nodes edges)"
    then have i: "i < length nodes" by (simp add: positionNodes_locate [OF assms(1)])
    let ?n = "nodes ! i"
    from i assms(2) have np: "node_id ?n \<notin> set Object_prototype_names" by auto
    have fi: "findIndex (\<lambda>n. node_id n = node_id ?n) nodes = int i"
      by (rule findIndex_nth [OF assms(1) i])
    have "locate nodes (node_id ?n) ?n = place_spec i ?n"
      using np fi
      by (auto simp: locate_def place_spec_def positions_def js_rem_def Let_def zdiv_int
          zmod_int split: option.splits position_entry.splits)
    then show "positionNodes nodes edges ! i
               = map (\<lambda>i. place_spec i (nodes ! i)) [0..<length nodes] ! i"
      using i by (simp add: positionNodes_locate [OF assms(1)])
  qed
  have "map node_id (map (\<lambda>i. place_spec i (nodes ! i)) [0..<length nodes]) = map node_id nodes"
    "map node_label (map (\<lambda>i. place_spec i (nodes ! i)) [0..<length nodes]) = map node_label nodes"
    "map node_type (map (\<lambda>i. place_spec i (nodes ! i)) [0..<length nodes]) = map node_type nodes"
    by (rule nth_equalityI; simp add: place_spec_fields)+
  with eq positions_table show ?thesis by simp
qed

text \<open>
  The claim on a start node followed by a node the table does not hold: the first gets
  the coordinates of the table, the second those of index 1 of the grid.
\<close>

theorem positionNodes_layout_witness:
  "distinct (map node_id
     [\<lparr>node_id = ''__start__'', node_label = ''Start'', node_type = ''control'',
        node_x = None, node_y = None\<rparr>,
      \<lparr>node_id = ''audit'', node_label = ''Audit'', node_type = ''agent'',
        node_x = None, node_y = None\<rparr>])
   \<and> positionNodes
     [\<lparr>node_id = ''__start__'', node_label = ''Start'', node_type = ''control'',
        node_x = None, node_y = None\<rparr>,
      \<lparr>node_id = ''audit'', node_label = ''Audit'', node_type = ''agent'',
        node_x = None, node_y = None\<rparr>] []
   = [\<lparr>node_id = ''__start__'', node_label = ''Start'', node_type = ''control'',
        node_x = Some 400, node_y = Some 50\<rparr>,
      \<lparr>node_id = ''audit'', node_label = ''Audit'', node_type = ''agent'',
        node_x = Some 250, node_y = Some 100\<rparr>]"
  using positionNodes_layout
    [of "[\<lparr>node_id = ''__start__'', node_label = ''Start'', node_type = ''control'',
            node_x = None, node_y = None\<rparr>,
          \<lparr>node_id = ''audit'', node_label = ''Audit'', node_type = ''agent'',
            node_x = None, node_y = None\<rparr>]" "[]"]
  by (simp add: place_spec_def positions_def Object_prototype_names_def upt_rec)

text \<open>
  Claim C5 as stated fails on two kinds of input. Two nodes under one id: the map keeps
  one entry for the id, so one node comes back where two went in, the label of the
  first is gone, and the coordinates are those of index 0. A node whose id names a
  member of \<open>Object.prototype\<close>: the lookup in the table is truthy, and the node gets
  \<open>undefined\<close> coordinates in place of those of the grid.
\<close>

theorem positionNodes_counterexample:
  "positionNodes
     [\<lparr>node_id = ''a'', node_label = ''first'', node_type = ''agent'',
        node_x = None, node_y = None\<rparr>,
      \<lparr>node_id = ''a'', node_label = ''second'', node_type = ''agent'',
        node_x = None, node_y = None\<rparr>] []
   = [\<lparr>node_id = ''a'', node_label = ''second'', node_type = ''agent'',
        node_x = Some 100, node_y = Some 100\<rparr>]
   \<and> positionNodes
     [\<lparr>node_id = ''toString'', node_label = ''t'', node_type = ''agent'',
        node_x = None, node_y = None\<rparr>] []
   = [\<lparr>node_id = ''toString'', node_label = ''t'', node_type = ''agent'',
        node_x = None, node_y = None\<rparr>]"
  by (simp add: positionNodes_def new_Map_def place_node_def Map_get_def Map_values_def
      positions_def Object_prototype_names_def js_rem_def Let_def)

section \<open>The result card\<close>

lemma truthy_get_property: "truthy v \<Longrightarrow> \<exists>w. get_property v k = Inr w"
  by (cases v) auto

lemma lower_bar: "map lower_char ''bar'' = ''bar''"
  by code_simp

lemma toLowerCase_type:
  assumes "string_or_falsy t"
  shows "\<exists>type. toLowerCase (if truthy t then t else JString ''bar'') = Inr type
           \<and> (type = ''line'') = lowercases_to_line t"
proof (cases t)
  case (JString s)
  then show ?thesis
    by (cases "s = []") (simp_all add: lowercases_to_line_def lower_bar)
qed (use assms in \<open>simp_all add: string_or_falsy_def lowercases_to_line_def lower_bar\<close>)

text \<open>
  Claim C9, as the code has it. For every payload whose \<open>chartjs\<close> member is truthy and
  whose chart type is a string or falsy (missing, \<open>null\<close>, empty), the card renders one
  chart: a Line chart exactly when the type lowercases to \<open>line\<close>, and a Bar chart in
  every other case, so also for a missing type and for \<open>pie\<close>. For no payload at all
  does the card render a Pie chart.
\<close>

theorem renderChart_line_or_bar:
  assumes "get_property payload ''chartjs'' = Inr cp" and "truthy cp"
    and "get_property cp ''type'' = Inr t" and "string_or_falsy t"
  shows "(\<exists>data options.
            ResultCard_chart payload =
              Inr (Some (if lowercases_to_line t then Line data options
                         else Bar data options)))
       \<and> (\<forall>data options. ResultCard_chart payload \<noteq> Inr (Some (Pie data options)))
       \<and> \<not> lowercases_to_line JUndefined \<and> \<not> lowercases_to_line (JString ''pie'')"
proof -
  from assms(1,2) have tp: "truthy payload" by (cases payload) auto
  from toLowerCase_type [OF assms(4)] obtain type
    where ty: "toLowerCase (if truthy t then t else JString ''bar'') = Inr type"
      and ln: "(type = ''line'') = lowercases_to_line t" by blast
  from truthy_get_property [OF assms(2)] obtain d
    where d: "get_property cp ''data'' = Inr d" by blast
  from truthy_get_property [OF assms(2)] obtain opts
    where o: "get_property cp ''options'' = Inr opts" by blast
  have "ResultCard_chart payload = renderChart cp"
    using tp assms(1,2) by (simp add: ResultCard_chart_def chartPayload_def)
  then have 1: "\<exists>data options.
            ResultCard_chart payload =
              Inr (Some (if lowercases_to_line t then Line data options
                         else Bar data options))"
    using assms(2,3) ty ln d o by (simp add: renderChart_def Let_def)
  have 2: "\<forall>data options. ResultCard_chart payload \<noteq> Inr (Some (Pie data options))"
    by (auto simp: ResultCard_chart_def renderChart_def Let_def split: sum.splits if_splits)
  have 3: "\<not> lowercases_to_line JUndefined"
    by (simp add: lowercases_to_line_def)
  have 4: "\<not> lowercases_to_line (JString ''pie'')"
    unfolding lowercases_to_line_def by code_simp
  from 1 2 3 4 show ?thesis by blast
qed

text \<open>The claim on a payload whose chart type is \<open>LINE\<close>: the card renders a Line chart.\<close>

theorem renderChart_line_or_bar_witness:
  "get_property (JObject [(''chartjs'', JObject [(''type'', JString ''LINE'')])]) ''chartjs''
     = Inr (JObject [(''type'', JString ''LINE'')])
   \<and> truthy (JObject [(''type'', JString ''LINE'')])
   \<and> get_property (JObject [(''type'', JString ''LINE'')]) ''type'' = Inr (JString ''LINE'')
   \<and> string_or_falsy (JString ''LINE'')
   \<and> lowercases_to_line (JString ''LINE'')
   \<and> (\<exists>data options.
         ResultCard_chart (JObject [(''chartjs'', JObject [(''type'', JString ''LINE'')])]) =
           Inr (Some (Line data options)))"
proof -
  have h: "string_or_falsy (JString ''LINE'')"
    by (simp add: string_or_falsy_def)
  have l: "lowercases_to_line (JString ''LINE'')"
    unfolding lowercases_to_line_def by code_simp
  show ?thesis
    using renderChart_line_or_bar
      [of "JObject [(''chartjs'', JObject [(''type'', JString ''LINE'')])]"
          "JObject [(''type'', JString ''LINE'')]" "JString ''LINE''"] h l
    by simp
qed

text \<open>
  Claim C9 as stated fails on a payload whose chart type is a number: \<open>toLowerCase\<close> is
  no method of a number, the render throws, and there is neither a Line nor a Bar
  chart. It also fails on a payload whose \<open>chartjs\<close> member is \<open>null\<close>: the card has no
  chart.
\<close>

theorem renderChart_counterexample:
  "ResultCard_chart (JObject [(''chartjs'', JObject [(''type'', JNumber 5)])]) = Inl TypeError
   \<and> ResultCard_chart (JObject [(''chartjs'', JNull)]) = Inr None"
  by (simp add: ResultCard_chart_def chartPayload_def renderChart_def)

end
